theory Spec2Isabelle
  imports Main "HOL-Library.Word"
begin

unbundle bit_operations_syntax

section \<open>Data model of \<open>nx_aligned_allocator.hpp\<close>\<close>

text \<open>
  \<open>size_t\<close> and pointers are 64-bit machine words (an LP64 target): \<open>+\<close>, \<open>-\<close> and \<open>*\<close>
  wrap modulo \<open>2 ^ 64\<close>, \<open>div\<close> is unsigned division, a pointer is its numeric address and
  the null pointer is \<open>0\<close>. \<open>sizeof(void*)\<close> is 8.
\<close>

type_synonym size_t = "64 word"

definition sizeof_ptr :: size_t where
  "sizeof_ptr = 8"

text \<open>
  The C library is outside the repository. Its allocation primitives are a parameter:
  what each of them answers to one request (\<open>0\<close> is the null result).
  \<open>posix_memalign L alignment size\<close> takes its arguments in the order of the POSIX
  prototype \<^verbatim>\<open>int posix_memalign(void **memptr, size_t alignment, size_t size)\<close> and
  yields the status code together with the pointer stored through \<open>memptr\<close>.
\<close>

record libc =
  malloc :: "size_t \<Rightarrow> size_t"
  mm_malloc :: "size_t \<Rightarrow> size_t \<Rightarrow> size_t"
  posix_memalign :: "size_t \<Rightarrow> size_t \<Rightarrow> int \<times> size_t"
  msvc_aligned_malloc :: "size_t \<Rightarrow> size_t \<Rightarrow> size_t"

text \<open>
  The observable state: the pointer-sized word stored at each address, and the calls made
  to the C library so far, oldest first.
\<close>

datatype call =
    Malloc size_t
  | Free size_t
  | Mm_malloc size_t size_t
  | Mm_free size_t
  | Posix_memalign size_t size_t
  | Msvc_aligned_malloc size_t size_t
  | Msvc_aligned_free size_t

record world =
  mem :: "size_t \<Rightarrow> size_t"
  calls :: "call list"

definition record_call :: "call \<Rightarrow> world \<Rightarrow> world" where
  "record_call c s = s\<lparr>calls := calls s @ [c]\<rparr>"

text \<open>\<^verbatim>\<open>*(reinterpret_cast<void**>(a)) = v\<close> and \<^verbatim>\<open>*(reinterpret_cast<void**>(a))\<close>.\<close>

definition store_ptr :: "size_t \<Rightarrow> size_t \<Rightarrow> world \<Rightarrow> world" where
  "store_ptr a v s = s\<lparr>mem := (mem s)(a := v)\<rparr>"

definition load_ptr :: "world \<Rightarrow> size_t \<Rightarrow> size_t" where
  "load_ptr s a = mem s a"

text \<open>
  The preprocessor symbols that select the allocation strategy. Their definitions live in
  \<open>nx_platform_config.hpp\<close>, which is not part of the sources, so they are a parameter.
\<close>

record config =
  NX_MALLOC_ALREADY_ALIGNED :: bool
  NX_HAS_MM_MALLOC :: bool
  NX_HAS_POSIX_MEMALIGN :: bool
  MSC_VER :: bool

text \<open>
  An instantiation \<open>aligned_allocator<T, Align>\<close>: the class has no data members, so an
  instance is determined by its template arguments, of which the code uses \<open>sizeof(T)\<close>
  and \<open>Align\<close> (the static member \<open>alignment\<close>).
\<close>

record aligned_allocator =
  sizeof_T :: size_t
  alignment :: size_t

datatype error = Bad_alloc

section \<open>The allocator\<close>

subsection \<open>\<open>detail::nx_aligned_malloc\<close> and \<open>detail::nx_aligned_free\<close>\<close>

definition nx_aligned_malloc :: "libc \<Rightarrow> world \<Rightarrow> size_t \<Rightarrow> size_t \<Rightarrow> size_t \<times> world" where
  "nx_aligned_malloc L s sz al =
     (let ptr = malloc L (sz + al);
          s1 = record_call (Malloc (sz + al)) s
      in if ptr \<noteq> 0
         then let res = (ptr AND NOT (al - 1)) + al
              in (res, store_ptr (res - sizeof_ptr) ptr s1)
         else (0, s1))"

definition nx_aligned_free :: "world \<Rightarrow> size_t \<Rightarrow> world" where
  "nx_aligned_free s ptr =
     (if ptr \<noteq> 0 then record_call (Free (load_ptr s (ptr - sizeof_ptr))) s else s)"

subsection \<open>\<open>aligned_malloc\<close> and \<open>aligned_free\<close>\<close>

text \<open>
  The \<^verbatim>\<open>#if\<close> chain, in the order of the source. The POSIX branch is written
  \<^verbatim>\<open>posix_memalign(&res, size, alignment)\<close>: \<open>size\<close> is passed in the position of the
  prototype's \<open>alignment\<close> and \<open>alignment\<close> in the position of its \<open>size\<close>.
\<close>

definition aligned_malloc :: "config \<Rightarrow> libc \<Rightarrow> world \<Rightarrow> size_t \<Rightarrow> size_t \<Rightarrow> size_t \<times> world" where
  "aligned_malloc cfg L s sz al =
     (if NX_MALLOC_ALREADY_ALIGNED cfg then
        (malloc L sz, record_call (Malloc sz) s)
      else if NX_HAS_MM_MALLOC cfg then
        (mm_malloc L sz al, record_call (Mm_malloc sz al) s)
      else if NX_HAS_POSIX_MEMALIGN cfg then
        (let (failed, res) = posix_memalign L sz al;
             s1 = record_call (Posix_memalign sz al) s
         in (if failed \<noteq> 0 then 0 else res, s1))
      else if MSC_VER cfg then
        (msvc_aligned_malloc L sz al, record_call (Msvc_aligned_malloc sz al) s)
      else nx_aligned_malloc L s sz al)"

definition aligned_free :: "config \<Rightarrow> world \<Rightarrow> size_t \<Rightarrow> world" where
  "aligned_free cfg s ptr =
     (if NX_MALLOC_ALREADY_ALIGNED cfg then record_call (Free ptr) s
      else if NX_HAS_MM_MALLOC cfg then record_call (Mm_free ptr) s
      else if NX_HAS_POSIX_MEMALIGN cfg then record_call (Free ptr) s
      else if MSC_VER cfg then record_call (Msvc_aligned_free ptr) s
      else nx_aligned_free s ptr)"

subsection \<open>\<open>aligned_allocator\<close>\<close>

text \<open>\<open>allocate\<close> ignores \<open>hint\<close>; \<^verbatim>\<open>throw std::bad_alloc()\<close> is the result \<open>Inl Bad_alloc\<close>.\<close>

definition allocate ::
  "config \<Rightarrow> libc \<Rightarrow> aligned_allocator \<Rightarrow> world \<Rightarrow> size_t \<Rightarrow> size_t \<Rightarrow> (error + size_t) \<times> world" where
  "allocate cfg L a s n hint =
     (let (res, s1) = aligned_malloc cfg L s (sizeof_T a * n) (alignment a)
      in if res = 0 then (Inl Bad_alloc, s1) else (Inr res, s1))"

definition deallocate :: "config \<Rightarrow> aligned_allocator \<Rightarrow> world \<Rightarrow> size_t \<Rightarrow> size_t \<Rightarrow> world" where
  "deallocate cfg a s p n = aligned_free cfg s p"

definition size_max :: "aligned_allocator \<Rightarrow> size_t" where
  "size_max a = (- 1) div sizeof_T a"

definition operator_eq :: "aligned_allocator \<Rightarrow> aligned_allocator \<Rightarrow> bool" where
  "operator_eq lhs rhs = (alignment lhs = alignment rhs)"

definition operator_neq :: "aligned_allocator \<Rightarrow> aligned_allocator \<Rightarrow> bool" where
  "operator_neq lhs rhs = (\<not> operator_eq lhs rhs)"

section \<open>\<open>get_alignment_offset\<close>\<close>

text \<open>\<open>szT\<close> is \<open>sizeof(T)\<close> of the template argument, \<open>p\<close> the address held by the pointer.\<close>

definition get_alignment_offset :: "size_t \<Rightarrow> size_t \<Rightarrow> size_t \<Rightarrow> size_t \<Rightarrow> size_t" where
  "get_alignment_offset szT p sz block_size =
     (if block_size = 1 then 0
      else if p AND (szT - 1) \<noteq> 0 then sz
      else let block_mask = block_size - 1
           in min ((block_size - ((p div szT) AND block_mask)) AND block_mask) sz)"

section \<open>Vocabulary of the specification\<close>

text \<open>A power-of-two value of \<open>size_t\<close>.\<close>

definition is_pow2 :: "size_t \<Rightarrow> bool" where
  "is_pow2 a = (\<exists>k<64. a = 2 ^ k)"

text \<open>
  The offset in the specification's words: the element index of \<open>p\<close> modulo the block
  size, the distance from there to the next multiple of the block size, clamped to \<open>size\<close>.
  On mathematical integers.
\<close>

definition spec_alignment_offset :: "nat \<Rightarrow> nat \<Rightarrow> nat \<Rightarrow> nat \<Rightarrow> nat" where
  "spec_alignment_offset szT p sz block_size =
     min sz ((block_size - (p div szT) mod block_size) mod block_size)"

text \<open>
  The first multiple of \<open>a\<close> that is at least \<open>p\<close> (the specification's words), and the
  first multiple of \<open>a\<close> strictly above \<open>p\<close>.
\<close>

definition first_multiple_at_or_after :: "nat \<Rightarrow> nat \<Rightarrow> nat" where
  "first_multiple_at_or_after a p = (if a dvd p then p else (p div a + 1) * a)"

definition first_multiple_after :: "nat \<Rightarrow> nat \<Rightarrow> nat" where
  "first_multiple_after a p = (p div a + 1) * a"

text \<open>The strategy of last resort is compiled when none of the four symbols is set.\<close>

definition uses_fallback :: "config \<Rightarrow> bool" where
  "uses_fallback cfg = (\<not> NX_MALLOC_ALREADY_ALIGNED cfg \<and> \<not> NX_HAS_MM_MALLOC cfg \<and>
                        \<not> NX_HAS_POSIX_MEMALIGN cfg \<and> \<not> MSC_VER cfg)"

text \<open>
  Contracts of the library's aligned primitives. \<open>_mm_malloc\<close> and \<open>_aligned_malloc\<close> take
  \<open>(size, alignment)\<close> and return null or a multiple of the alignment. \<open>posix_memalign\<close>
  succeeds (status 0) only with a multiple of its \<open>alignment\<close> argument, and rejects an
  alignment that is not a power of two multiple of \<open>sizeof(void*)\<close>.
\<close>

definition aligned_results :: "(size_t \<Rightarrow> size_t \<Rightarrow> size_t) \<Rightarrow> bool" where
  "aligned_results f = (\<forall>n a. is_pow2 a \<longrightarrow> f n a = 0 \<or> unat a dvd unat (f n a))"

definition posix_memalign_conforms :: "libc \<Rightarrow> bool" where
  "posix_memalign_conforms L =
     (\<forall>a n. (fst (posix_memalign L a n) = 0 \<longrightarrow> unat a dvd unat (snd (posix_memalign L a n)))
          \<and> (\<not> (is_pow2 a \<and> unat sizeof_ptr dvd unat a) \<longrightarrow> fst (posix_memalign L a n) \<noteq> 0))"

section \<open>Concrete libraries, configurations and states\<close>

text \<open>
  A library whose next free block starts at \<open>base\<close>: \<open>malloc\<close> hands out \<open>base\<close>, the
  aligned primitives hand out \<open>base\<close> rounded up to the alignment they were asked for, and
  \<open>posix_memalign\<close> answers \<open>EINVAL\<close> (22) to an alignment it must reject.
\<close>

definition align_up :: "size_t \<Rightarrow> size_t \<Rightarrow> size_t" where
  "align_up p a = (p + (a - 1)) AND NOT (a - 1)"

definition bump_libc :: "size_t \<Rightarrow> libc" where
  "bump_libc base =
     \<lparr>malloc = (\<lambda>n. base),
      mm_malloc = (\<lambda>n a. align_up base a),
      posix_memalign =
        (\<lambda>a n. if is_pow2 a \<and> a mod sizeof_ptr = 0 then (0, align_up base a) else (22, 0)),
      msvc_aligned_malloc = (\<lambda>n a. align_up base a)\<rparr>"

text \<open>A library that is out of memory: null results, and \<open>ENOMEM\<close> (12).\<close>

definition exhausted_libc :: libc where
  "exhausted_libc =
     \<lparr>malloc = (\<lambda>n. 0),
      mm_malloc = (\<lambda>n a. 0),
      posix_memalign = (\<lambda>a n. (12, 0)),
      msvc_aligned_malloc = (\<lambda>n a. 0)\<rparr>"

definition empty_world :: world where
  "empty_world = \<lparr>mem = (\<lambda>a. 0), calls = []\<rparr>"

definition fallback_cfg :: config where
  "fallback_cfg = \<lparr>NX_MALLOC_ALREADY_ALIGNED = False, NX_HAS_MM_MALLOC = False,
                    NX_HAS_POSIX_MEMALIGN = False, MSC_VER = False\<rparr>"

definition posix_cfg :: config where
  "posix_cfg = \<lparr>NX_MALLOC_ALREADY_ALIGNED = False, NX_HAS_MM_MALLOC = False,
                 NX_HAS_POSIX_MEMALIGN = True, MSC_VER = False\<rparr>"

section \<open>Masks on machine words\<close>

lemma low_mask_take_bit:
  fixes p :: size_t
  shows "p AND (2 ^ k - 1) = take_bit k p"
  by (simp add: take_bit_eq_mask mask_eq_decr_exp)

lemma and_low_mask_unat:
  fixes p :: size_t
  shows "unat (p AND (2 ^ k - 1)) = unat p mod 2 ^ k"
proof -
  have "unat (take_bit k p) = take_bit k (unat p)"
    by (simp add: unsigned_take_bit_eq)
  also have "\<dots> = unat p mod 2 ^ k"
    by (simp add: take_bit_eq_mod)
  finally show ?thesis
    by (simp add: low_mask_take_bit)
qed

lemma and_not_low_mask:
  fixes p :: size_t
  shows "p AND NOT (2 ^ k - 1) = push_bit k (drop_bit k p)"
proof -
  have "p AND NOT (mask k) = push_bit k (drop_bit k p)"
    by (rule bit_eqI) (auto simp: bit_simps)
  then show ?thesis
    by (simp add: mask_eq_decr_exp)
qed

lemma and_not_low_mask_unat:
  fixes p :: size_t
  shows "unat (p AND NOT (2 ^ k - 1)) = unat p - unat p mod 2 ^ k"
proof -
  have "(p AND NOT (2 ^ k - 1)) + (p AND (2 ^ k - 1)) = p"
    unfolding and_not_low_mask low_mask_take_bit by (rule bits_ident)
  then have "p AND NOT (2 ^ k - 1) = p - (p AND (2 ^ k - 1))"
    by (simp add: eq_diff_eq)
  moreover have "p AND (2 ^ k - 1) \<le> p"
    by (simp add: word_and_le2)
  ultimately show ?thesis
    by (simp add: unat_sub and_low_mask_unat)
qed


lemma is_pow2_exp: "k < 64 \<Longrightarrow> is_pow2 (2 ^ k)"
  by (auto simp: is_pow2_def)

lemma unat_exp64:
  assumes "k < 64"
  shows "unat ((2::size_t) ^ k) = 2 ^ k"
proof -
  have lt: "(2::nat) ^ k < 2 ^ LENGTH(64)"
    using assms by (intro power_strict_increasing) simp_all
  have "unat (of_nat (2 ^ k) :: size_t) = 2 ^ k mod 2 ^ LENGTH(64)"
    by (rule unat_of_nat)
  also have "\<dots> = 2 ^ k"
    using lt by (rule mod_less)
  finally show ?thesis
    by simp
qed

lemma unat_min: "unat (min a b) = min (unat a) (unat b)"
  by (simp add: min_def word_le_nat_alt)

lemma aligned_iff_low_bits_clear:
  fixes p :: size_t
  assumes "k < 64"
  shows "p AND (2 ^ k - 1) = 0 \<longleftrightarrow> unat (2 ^ k :: size_t) dvd unat p"
proof -
  have "p AND (2 ^ k - 1) = 0 \<longleftrightarrow> unat (p AND (2 ^ k - 1)) = 0"
    by (simp add: unat_eq_0)
  also have "\<dots> \<longleftrightarrow> 2 ^ k dvd unat p"
    by (simp add: and_low_mask_unat dvd_eq_mod_eq_0)
  finally show ?thesis
    using assms by (simp add: unat_exp64)
qed

lemma is_pow2_unat:
  assumes "is_pow2 a"
  obtains k where "k < 64" and "a = 2 ^ k" and "unat a = 2 ^ k"
  using assms unat_exp64 by (auto simp: is_pow2_def)


lemma is_pow2_16: "is_pow2 16"
  using is_pow2_exp [of 4] by simp

lemma is_pow2_32: "is_pow2 32"
  using is_pow2_exp [of 5] by simp

section \<open>Multiples\<close>

lemma first_multiple_after_least:
  assumes "0 < a"
  shows "p < first_multiple_after a p" and "a dvd first_multiple_after a p"
    and "p < x \<Longrightarrow> a dvd x \<Longrightarrow> first_multiple_after a p \<le> x"
proof -
  show "p < first_multiple_after a p"
    using assms dividend_less_div_times [of a p]
    by (simp add: first_multiple_after_def algebra_simps)
  show "a dvd first_multiple_after a p"
    by (simp add: first_multiple_after_def)
  assume "p < x" and "a dvd x"
  then obtain m where m: "x = m * a"
    by (auto simp: dvd_def mult.commute)
  with \<open>p < x\<close> assms have "p div a < m"
    by (simp add: div_less_iff_less_mult)
  then have "(p div a + 1) * a \<le> m * a"
    by (intro mult_le_mono1) simp
  then show "first_multiple_after a p \<le> x"
    by (simp add: first_multiple_after_def m)
qed

lemma first_multiple_at_or_after_least:
  assumes "0 < a"
  shows "p \<le> first_multiple_at_or_after a p" and "a dvd first_multiple_at_or_after a p"
    and "p \<le> x \<Longrightarrow> a dvd x \<Longrightarrow> first_multiple_at_or_after a p \<le> x"
proof -
  show "p \<le> first_multiple_at_or_after a p"
    using first_multiple_after_least(1) [OF assms, of p]
    by (simp add: first_multiple_at_or_after_def first_multiple_after_def)
  show "a dvd first_multiple_at_or_after a p"
    by (simp add: first_multiple_at_or_after_def)
  assume x: "p \<le> x" "a dvd x"
  show "first_multiple_at_or_after a p \<le> x"
  proof (cases "a dvd p")
    case True
    then show ?thesis using x by (simp add: first_multiple_at_or_after_def)
  next
    case False
    with x have "p < x" by (auto simp: le_less)
    then show ?thesis
      using first_multiple_after_least(3) [OF assms, of p x] x False
      by (simp add: first_multiple_at_or_after_def first_multiple_after_def)
  qed
qed

section \<open>The address computed by the fallback\<close>

text \<open>
  For an alignment \<open>2 ^ k\<close> the fallback returns a multiple of it whatever the raw pointer
  is, and the first multiple above the raw pointer when the sum does not wrap.
\<close>

lemma fallback_address_unat:
  fixes ptr :: size_t
  assumes "k < 64" and "unat ptr + 2 ^ k < 2 ^ 64"
  shows "unat ((ptr AND NOT (2 ^ k - 1)) + 2 ^ k) = first_multiple_after (2 ^ k) (unat ptr)"
proof -
  have base: "unat (ptr AND NOT (2 ^ k - 1)) = unat ptr - unat ptr mod 2 ^ k"
    by (rule and_not_low_mask_unat)
  have "unat (ptr AND NOT (2 ^ k - 1)) + unat ((2::size_t) ^ k) < 2 ^ LENGTH(64)"
    using assms by (simp add: base unat_exp64)
  then have "unat ((ptr AND NOT (2 ^ k - 1)) + 2 ^ k) = unat (ptr AND NOT (2 ^ k - 1)) + unat ((2::size_t) ^ k)"
    by (simp only: unat_add_lem)
  also have "\<dots> = (unat ptr - unat ptr mod 2 ^ k) + 2 ^ k"
    using assms by (simp add: base unat_exp64)
  also have "\<dots> = (unat ptr div 2 ^ k + 1) * 2 ^ k"
    by (simp add: minus_mod_eq_div_mult)
  finally show ?thesis
    by (simp add: first_multiple_after_def)
qed

lemma fallback_address_dvd:
  fixes ptr :: size_t
  assumes "k < 64"
  shows "unat ((2::size_t) ^ k) dvd unat ((ptr AND NOT (2 ^ k - 1)) + 2 ^ k)"
proof -
  define b where "b = unat (ptr AND NOT (2 ^ k - 1))"
  have b: "b = (unat ptr div 2 ^ k) * 2 ^ k"
    unfolding b_def and_not_low_mask_unat by (rule minus_mod_eq_div_mult)
  have e: "unat ((2::size_t) ^ k) = 2 ^ k"
    using assms by (rule unat_exp64)
  have "unat ((ptr AND NOT (2 ^ k - 1)) + 2 ^ k) = (b + 2 ^ k) mod 2 ^ LENGTH(64)"
    unfolding b_def e [symmetric] by (rule unat_word_ariths(1))
  moreover have "(2::nat) ^ k dvd 2 ^ LENGTH(64)"
    using assms by (intro le_imp_power_dvd) simp
  moreover have "(2::nat) ^ k dvd b + 2 ^ k"
    unfolding b by simp
  ultimately have "(2::nat) ^ k dvd unat ((ptr AND NOT (2 ^ k - 1)) + 2 ^ k)"
    by (metis dvd_mod)
  then show ?thesis
    unfolding e .
qed

lemma nx_aligned_malloc_success:
  assumes "malloc L (sz + al) = ptr" and "ptr \<noteq> 0"
  shows "nx_aligned_malloc L s sz al =
         ((ptr AND NOT (al - 1)) + al,
          store_ptr ((ptr AND NOT (al - 1)) + al - sizeof_ptr) ptr (record_call (Malloc (sz + al)) s))"
  using assms by (simp add: nx_aligned_malloc_def Let_def)

lemma bump_malloc [simp]: "malloc (bump_libc base) n = base"
  by (simp add: bump_libc_def)

lemma exhausted_malloc [simp]: "malloc exhausted_libc n = 0"
  by (simp add: exhausted_libc_def)

section \<open>Alignment of the returned address\<close>

lemma align_up_dvd:
  assumes "is_pow2 a"
  shows "unat a dvd unat (align_up p a)"
proof -
  from assms obtain k where k: "k < 64" "a = 2 ^ k" "unat a = 2 ^ k"
    by (rule is_pow2_unat)
  have "unat (align_up p a) = (unat (p + (a - 1)) div 2 ^ k) * 2 ^ k"
    unfolding align_up_def k(2) and_not_low_mask_unat by (rule minus_mod_eq_div_mult)
  then show ?thesis
    by (simp add: k(3))
qed

lemma bump_libc_posix_conforms: "posix_memalign_conforms (bump_libc base)"
proof -
  have "unat sizeof_ptr dvd unat a \<longleftrightarrow> a mod sizeof_ptr = 0" for a :: size_t
    by (simp add: dvd_eq_mod_eq_0 unat_mod flip: unat_eq_0)
  then show ?thesis
    by (simp add: posix_memalign_conforms_def bump_libc_def align_up_dvd)
qed

lemma aligned_malloc_fallback_dvd:
  assumes "is_pow2 al"
  shows "fst (nx_aligned_malloc L s sz al) = 0 \<or> unat al dvd unat (fst (nx_aligned_malloc L s sz al))"
proof -
  from assms obtain k where k: "k < 64" "al = 2 ^ k"
    by (rule is_pow2_unat)
  show ?thesis
    using fallback_address_dvd [OF k(1), of "malloc L (sz + al)"]
    by (simp add: nx_aligned_malloc_def Let_def k(2))
qed

lemma aligned_malloc_aligned_outside_posix:
  assumes "is_pow2 al"
    and "NX_MALLOC_ALREADY_ALIGNED cfg \<Longrightarrow> malloc L sz = 0 \<or> unat al dvd unat (malloc L sz)"
    and "aligned_results (mm_malloc L)" and "aligned_results (msvc_aligned_malloc L)"
    and "NX_MALLOC_ALREADY_ALIGNED cfg \<or> NX_HAS_MM_MALLOC cfg \<or> \<not> NX_HAS_POSIX_MEMALIGN cfg"
  shows "fst (aligned_malloc cfg L s sz al) = 0 \<or> unat al dvd unat (fst (aligned_malloc cfg L s sz al))"
  using assms aligned_malloc_fallback_dvd [OF assms(1), of L s sz]
  by (auto simp: aligned_malloc_def aligned_results_def)

lemma aligned_malloc_posix_aligned_to_size:
  assumes "posix_memalign_conforms L"
    and "\<not> NX_MALLOC_ALREADY_ALIGNED cfg" and "\<not> NX_HAS_MM_MALLOC cfg" and "NX_HAS_POSIX_MEMALIGN cfg"
  shows "fst (aligned_malloc cfg L s sz al) = 0 \<or> unat sz dvd unat (fst (aligned_malloc cfg L s sz al))"
  using assms
  by (auto simp: aligned_malloc_def posix_memalign_conforms_def Let_def split: prod.splits)
     (metis fst_conv snd_conv)

text \<open>
  Claim C1. In every strategy, \<open>aligned_malloc(size, alignment)\<close> returns null or a multiple
  of \<open>alignment\<close>, so that \<open>allocate(n)\<close> returns a multiple of \<open>Align\<close>. This holds outside
  the POSIX strategy (\<open>aligned_malloc_aligned_outside_posix\<close>). The POSIX strategy passes
  \<open>size\<close> where \<open>posix_memalign\<close> expects the alignment, and a conforming library then hands
  out a multiple of \<open>size\<close> (\<open>aligned_malloc_posix_aligned_to_size\<close>): for
  \<open>aligned_allocator<float, 64>\<close> and \<open>n = 8\<close> the library is asked for 64 bytes aligned to
  32, and the address 4128 it may answer with is not a multiple of 64. The library of the
  instance conforms to the POSIX contract (\<open>bump_libc_posix_conforms\<close>).
\<close>

theorem aligned_malloc_posix_misaligned:
  "aligned_malloc posix_cfg (bump_libc 4100) empty_world 32 64
     = (4128, \<lparr>mem = (\<lambda>a. 0), calls = [Posix_memalign 32 64]\<rparr>)
   \<and> allocate posix_cfg (bump_libc 4100) \<lparr>sizeof_T = 4, alignment = 64\<rparr> empty_world 8 0
     = (Inr 4128, \<lparr>mem = (\<lambda>a. 0), calls = [Posix_memalign 32 64]\<rparr>)
   \<and> \<not> unat (64::size_t) dvd unat (4128::size_t)"
  by (simp add: allocate_def aligned_malloc_def posix_cfg_def bump_libc_def is_pow2_32 sizeof_ptr_def
      align_up_def empty_world_def record_call_def)

section \<open>Placement in the portable fallback\<close>

text \<open>
  Claim C2, as the code has it. For a power-of-two alignment and a raw block
  \<open>[ptr, ptr + size + alignment)\<close> that ends below the top of the address space, the
  fallback returns the first multiple of the alignment strictly above \<open>ptr\<close>; the \<open>size\<close>
  bytes that start there end inside the raw block; and the word before the returned address
  starts at or after \<open>ptr\<close> when \<open>ptr\<close> is a multiple of the word size and the alignment is
  at least the word size.
\<close>

theorem nx_aligned_malloc_placement:
  assumes "is_pow2 al" and "malloc L (sz + al) = ptr" and "ptr \<noteq> 0"
    and "unat ptr + unat sz + unat al < 2 ^ 64"
    and "nx_aligned_malloc L s sz al = (q, s')"
  shows "unat q = first_multiple_after (unat al) (unat ptr)
       \<and> unat q + unat sz \<le> unat ptr + unat sz + unat al
       \<and> (unat sizeof_ptr dvd unat ptr \<and> sizeof_ptr \<le> al \<longrightarrow> unat ptr + unat sizeof_ptr \<le> unat q)"
proof -
  from assms(1) obtain k where k: "k < 64" "al = 2 ^ k" "unat al = 2 ^ k"
    by (rule is_pow2_unat)
  have q: "q = (ptr AND NOT (2 ^ k - 1)) + 2 ^ k"
    using nx_aligned_malloc_success [OF assms(2,3), of s] assms(5) k(2) by simp
  have "unat ptr + 2 ^ k < 2 ^ 64"
    using assms(4) k(3) by simp
  then have uq: "unat q = first_multiple_after (2 ^ k) (unat ptr)"
    unfolding q using k(1) by (intro fallback_address_unat)
  have pos: "(0::nat) < 2 ^ k"
    by simp
  have gt: "unat ptr < unat q"
    unfolding uq using pos by (rule first_multiple_after_least(1))
  have "unat q = unat ptr - unat ptr mod 2 ^ k + 2 ^ k"
    by (simp add: uq first_multiple_after_def minus_mod_eq_div_mult)
  then have le: "unat q \<le> unat ptr + 2 ^ k"
    by simp
  have room: "unat ptr + unat sizeof_ptr \<le> unat q"
    if "unat sizeof_ptr dvd unat ptr" and "sizeof_ptr \<le> al"
  proof -
    have "(8::nat) \<le> 2 ^ k"
      using that(2) k(3) by (simp add: word_le_nat_alt sizeof_ptr_def)
    then have "(2::nat) ^ 3 \<le> 2 ^ k"
      by simp
    then have "3 \<le> k"
      by (simp only: power_increasing_iff) 
    then have "(2::nat) ^ 3 dvd 2 ^ k"
      by (rule le_imp_power_dvd)
    moreover have "(2::nat) ^ k dvd unat q"
      unfolding uq using pos by (rule first_multiple_after_least(2))
    ultimately have "(2::nat) ^ 3 dvd unat q"
      by (rule dvd_trans)
    then have "(8::nat) dvd unat q"
      by simp
    moreover have "(8::nat) dvd unat ptr"
      using that(1) by (simp add: sizeof_ptr_def)
    ultimately have "(8::nat) dvd unat q - unat ptr"
      by (rule dvd_diff_nat)
    moreover have "0 < unat q - unat ptr"
      using gt by simp
    ultimately have "8 \<le> unat q - unat ptr"
      by (rule dvd_imp_le)
    then show ?thesis
      using gt by (simp add: sizeof_ptr_def)
  qed
  show ?thesis
    using uq le room k(3) by simp
qed

text \<open>
  An instance of C2: raw pointer 4104, alignment 16. The result is 4112 and the
  back-pointer occupies \<open>[4104, 4112)\<close>.
\<close>

theorem nx_aligned_malloc_placement_witness:
  "unat (fst (nx_aligned_malloc (bump_libc 4104) empty_world 100 16)) = 4112
   \<and> unat (4104::size_t) + unat sizeof_ptr \<le> unat (fst (nx_aligned_malloc (bump_libc 4104) empty_world 100 16))"
proof -
  obtain q s' where r: "nx_aligned_malloc (bump_libc 4104) empty_world 100 16 = (q, s')"
    by (cases "nx_aligned_malloc (bump_libc 4104) empty_world 100 16")
  have "unat q = first_multiple_after (unat (16::size_t)) (unat (4104::size_t))
       \<and> unat q + unat (100::size_t) \<le> unat (4104::size_t) + unat (100::size_t) + unat (16::size_t)
       \<and> (unat sizeof_ptr dvd unat (4104::size_t) \<and> sizeof_ptr \<le> 16 \<longrightarrow> unat (4104::size_t) + unat sizeof_ptr \<le> unat q)"
    by (rule nx_aligned_malloc_placement [OF is_pow2_16 _ _ _ r]) simp_all
  then show ?thesis
    by (simp add: r first_multiple_after_def sizeof_ptr_def)
qed

text \<open>
  Claim C2 as stated fails twice. With the raw pointer 4096 and alignment 16 the first
  multiple at or after the raw pointer is 4096 itself, and the code returns 4112. With the
  raw pointer 4108 it returns 4112, and the word before it starts at 4104, below the block.
\<close>

theorem nx_aligned_malloc_placement_counterexample:
  "unat (fst (nx_aligned_malloc (bump_libc 4096) empty_world 100 16)) \<noteq> first_multiple_at_or_after 16 4096
   \<and> \<not> unat (4108::size_t) + unat sizeof_ptr \<le> unat (fst (nx_aligned_malloc (bump_libc 4108) empty_world 100 16))"
  by (simp add: nx_aligned_malloc_def first_multiple_at_or_after_def sizeof_ptr_def)

section \<open>Round trip through the back-pointer\<close>

text \<open>
  Claim C5. When \<open>malloc\<close> succeeds with \<open>ptr\<close>, for a nonzero alignment and a raw block
  that ends below the top of the address space, \<open>nx_aligned_malloc\<close> returns a non-null
  \<open>q\<close>, the word before \<open>q\<close> holds \<open>ptr\<close>, and \<open>nx_aligned_free(q)\<close> makes exactly one call,
  \<open>free(ptr)\<close>. The memory of the model is total: whether the word before \<open>q\<close> belongs to
  the raw block is the subject of C2.
\<close>

theorem fallback_round_trip:
  assumes "malloc L (sz + al) = ptr" and "ptr \<noteq> 0" and "al \<noteq> 0"
    and "unat ptr + unat al < 2 ^ 64"
    and "nx_aligned_malloc L s sz al = (q, s')"
  shows "q \<noteq> 0 \<and> load_ptr s' (q - sizeof_ptr) = ptr
       \<and> nx_aligned_free s' q = record_call (Free ptr) s'
       \<and> calls (nx_aligned_free s' q) = calls s @ [Malloc (sz + al), Free ptr]"
proof -
  have q: "q = (ptr AND NOT (al - 1)) + al"
    and s': "s' = store_ptr (q - sizeof_ptr) ptr (record_call (Malloc (sz + al)) s)"
    using nx_aligned_malloc_success [OF assms(1,2), of s] assms(5) by simp_all
  have "unat (ptr AND NOT (al - 1)) \<le> unat ptr"
    by (simp add: word_and_le2 flip: word_le_nat_alt)
  then have "unat (ptr AND NOT (al - 1)) + unat al < 2 ^ LENGTH(64)"
    using assms(4) by simp
  then have "unat q = unat (ptr AND NOT (al - 1)) + unat al"
    unfolding q by (simp only: unat_add_lem)
  moreover have "0 < unat al"
    using assms(3) by (simp add: unat_gt_0)
  ultimately have "0 < unat q"
    by simp
  then have nz: "q \<noteq> 0"
    by (simp add: unat_gt_0)
  have ld: "load_ptr s' (q - sizeof_ptr) = ptr"
    by (simp add: s' load_ptr_def store_ptr_def)
  have fr: "nx_aligned_free s' q = record_call (Free ptr) s'"
    using nz ld by (simp add: nx_aligned_free_def)
  have "calls (record_call (Free ptr) s') = calls s @ [Malloc (sz + al), Free ptr]"
    by (simp add: s' record_call_def store_ptr_def)
  with nz ld fr show ?thesis
    by simp
qed

text \<open>An instance of C5: raw pointer 4104, 100 bytes, alignment 16.\<close>

theorem fallback_round_trip_witness:
  "nx_aligned_malloc (bump_libc 4104) empty_world 100 16
     = (4112, \<lparr>mem = (\<lambda>a. 0)(4104 := 4104), calls = [Malloc 116]\<rparr>)
   \<and> load_ptr \<lparr>mem = (\<lambda>a. 0)(4104 := 4104), calls = [Malloc 116]\<rparr> (4112 - sizeof_ptr) = 4104
   \<and> calls (nx_aligned_free \<lparr>mem = (\<lambda>a. 0)(4104 := 4104), calls = [Malloc 116]\<rparr> 4112) = [Malloc 116, Free 4104]"
proof -
  have r: "nx_aligned_malloc (bump_libc 4104) empty_world 100 16
     = (4112, \<lparr>mem = (\<lambda>a. 0)(4104 := 4104), calls = [Malloc 116]\<rparr>)"
    by (simp add: nx_aligned_malloc_def empty_world_def record_call_def store_ptr_def sizeof_ptr_def)
  show ?thesis
    using fallback_round_trip [OF _ _ _ _ r, of 4104] r
    by (simp add: empty_world_def record_call_def)
qed

section \<open>Allocation failure\<close>

text \<open>
  Claim C6. When \<open>malloc\<close> fails, \<open>nx_aligned_malloc\<close> returns null after that single call
  to \<open>malloc\<close> and stores nothing. \<open>allocate\<close> raises \<open>bad_alloc\<close> exactly when \<open>aligned_malloc\<close>
  returns null, returns its pointer otherwise, and calls the library no further.
\<close>

theorem allocation_failure_propagates:
  "(malloc L (sz + al) = 0 \<longrightarrow>
      nx_aligned_malloc L s sz al = (0, record_call (Malloc (sz + al)) s))
   \<and> (fst (allocate cfg L a s n hint) = Inl Bad_alloc
        \<longleftrightarrow> fst (aligned_malloc cfg L s (sizeof_T a * n) (alignment a)) = 0)
   \<and> (\<forall>p. fst (allocate cfg L a s n hint) = Inr p
        \<longleftrightarrow> p \<noteq> 0 \<and> fst (aligned_malloc cfg L s (sizeof_T a * n) (alignment a)) = p)
   \<and> snd (allocate cfg L a s n hint) = snd (aligned_malloc cfg L s (sizeof_T a * n) (alignment a))"
  by (auto simp: nx_aligned_malloc_def allocate_def Let_def split: prod.splits)

text \<open>An instance of C6: a library that is out of memory, 25 elements of 4 bytes.\<close>

theorem allocation_failure_propagates_witness:
  "nx_aligned_malloc exhausted_libc empty_world 100 16 = (0, \<lparr>mem = (\<lambda>a. 0), calls = [Malloc 116]\<rparr>)
   \<and> allocate fallback_cfg exhausted_libc \<lparr>sizeof_T = 4, alignment = 16\<rparr> empty_world 25 0
       = (Inl Bad_alloc, \<lparr>mem = (\<lambda>a. 0), calls = [Malloc 116]\<rparr>)"
proof -
  have m: "malloc exhausted_libc (100 + 16) = 0"
    by simp
  have f: "aligned_malloc fallback_cfg exhausted_libc empty_world 100 16
           = nx_aligned_malloc exhausted_libc empty_world 100 16"
    by (simp add: aligned_malloc_def fallback_cfg_def)
  show ?thesis
    using allocation_failure_propagates
      [of exhausted_libc 100 16 empty_world fallback_cfg "\<lparr>sizeof_T = 4, alignment = 16\<rparr>" 25 0] m f
    by (simp add: empty_world_def record_call_def prod_eq_iff)
qed

section \<open>Freeing in the portable fallback\<close>

text \<open>
  Claim C9. In the fallback strategy \<open>aligned_free\<close> of the null pointer leaves the state
  as it is: no call to the library, no store. For a non-null pointer it reads the word
  before the pointer and calls \<open>free\<close> on the address found there.
\<close>

theorem fallback_aligned_free:
  assumes "uses_fallback cfg"
  shows "aligned_free cfg s 0 = s
       \<and> (ptr \<noteq> 0 \<longrightarrow>
            aligned_free cfg s ptr = record_call (Free (load_ptr s (ptr - sizeof_ptr))) s)"
  using assms by (simp add: aligned_free_def uses_fallback_def nx_aligned_free_def)

text \<open>An instance of C9: the word at 4104 holds 4100.\<close>

theorem fallback_aligned_free_witness:
  "aligned_free fallback_cfg \<lparr>mem = (\<lambda>a. 0)(4104 := 4100), calls = []\<rparr> 0
     = \<lparr>mem = (\<lambda>a. 0)(4104 := 4100), calls = []\<rparr>
   \<and> aligned_free fallback_cfg \<lparr>mem = (\<lambda>a. 0)(4104 := 4100), calls = []\<rparr> 4112
     = \<lparr>mem = (\<lambda>a. 0)(4104 := 4100), calls = [Free 4100]\<rparr>"
proof -
  have u: "uses_fallback fallback_cfg"
    by (simp add: uses_fallback_def fallback_cfg_def)
  show ?thesis
    using fallback_aligned_free [OF u, of "\<lparr>mem = (\<lambda>a. 0)(4104 := 4100), calls = []\<rparr>" 4112]
    by (simp add: record_call_def load_ptr_def sizeof_ptr_def)
qed

section \<open>Equality of allocators\<close>

text \<open>
  Claim C8. Two allocator instances, whatever their element types, compare equal exactly
  when their alignments are equal; \<open>operator!=\<close> is the negation of \<open>operator==\<close>; instances
  with different alignments compare unequal.
\<close>

theorem allocator_equality:
  "operator_eq \<lparr>sizeof_T = t1, alignment = a1\<rparr> \<lparr>sizeof_T = t2, alignment = a2\<rparr> = (a1 = a2)
   \<and> operator_neq \<lparr>sizeof_T = t1, alignment = a1\<rparr> \<lparr>sizeof_T = t2, alignment = a2\<rparr>
       = (\<not> operator_eq \<lparr>sizeof_T = t1, alignment = a1\<rparr> \<lparr>sizeof_T = t2, alignment = a2\<rparr>)
   \<and> (a1 \<noteq> a2 \<longrightarrow> operator_neq \<lparr>sizeof_T = t1, alignment = a1\<rparr> \<lparr>sizeof_T = t2, alignment = a2\<rparr>)"
  by (simp add: operator_eq_def operator_neq_def)

text \<open>An instance of C8: \<open>aligned_allocator<float, 16>\<close> and \<open>aligned_allocator<double, 32>\<close>.\<close>

theorem allocator_equality_witness:
  "operator_neq \<lparr>sizeof_T = 4, alignment = 16\<rparr> \<lparr>sizeof_T = 8, alignment = 32\<rparr>
   \<and> operator_eq \<lparr>sizeof_T = 4, alignment = 16\<rparr> \<lparr>sizeof_T = 8, alignment = 16\<rparr>"
  using allocator_equality [of 4 16 8 32] allocator_equality [of 4 16 8 16]
  by simp

section \<open>The byte count of \<open>allocate\<close>\<close>

lemma size_max_unat:
  "unat (size_max a) = (2 ^ 64 - 1) div unat (sizeof_T a)"
  by (simp add: size_max_def unat_div unsigned_minus_1_eq_mask mask_eq_exp_minus_1)

lemma product_exceeds_word:
  assumes "sizeof_T a \<noteq> 0" and "size_max a < n"
  shows "2 ^ 64 \<le> unat (sizeof_T a) * unat n"
proof -
  define k where "k = unat (sizeof_T a)"
  have k: "0 < k"
    using assms(1) by (simp add: k_def unat_gt_0)
  have "(2 ^ 64 - 1) div k < unat n"
    using assms(2) by (simp add: word_less_nat_alt size_max_unat k_def)
  then have "(2 ^ 64 - 1) div k + 1 \<le> unat n"
    by simp
  then have "k * ((2 ^ 64 - 1) div k + 1) \<le> k * unat n"
    by (rule mult_le_mono2)
  moreover have "(2 ^ 64 - 1 :: nat) < k * ((2 ^ 64 - 1) div k + 1)"
    using k dividend_less_times_div [of k "2 ^ 64 - 1"] by simp
  ultimately show ?thesis
    by (simp add: k_def)
qed

text \<open>
  Claim C10. \<open>allocate(n)\<close> asks \<open>aligned_malloc\<close> for \<open>sizeof(T) * n\<close> bytes modulo
  \<open>2 ^ 64\<close>. For an element of at least two bytes there are counts above \<open>size_max()\<close>, and
  for each of them the byte count asked for is strictly smaller than the product, while
  \<open>allocate\<close> returns whatever non-null pointer \<open>aligned_malloc\<close> produced.
\<close>

theorem allocate_byte_count_wraps:
  assumes "1 < sizeof_T a"
  shows "size_max a < size_max a + 1
       \<and> (\<forall>n. size_max a < n \<longrightarrow>
             unat (sizeof_T a * n) = (unat (sizeof_T a) * unat n) mod 2 ^ 64
           \<and> unat (sizeof_T a * n) < unat (sizeof_T a) * unat n
           \<and> (\<forall>cfg L s hint p s'.
                 aligned_malloc cfg L s (sizeof_T a * n) (alignment a) = (p, s') \<and> p \<noteq> 0
                 \<longrightarrow> allocate cfg L a s n hint = (Inr p, s')))"
proof -
  have nz: "sizeof_T a \<noteq> 0"
    using assms by auto
  have "2 \<le> unat (sizeof_T a)"
    using assms by (simp add: word_less_nat_alt)
  then have "(2 ^ 64 - 1) div unat (sizeof_T a) \<le> (2 ^ 64 - 1) div 2"
    by (intro div_le_mono2) simp_all
  then have "unat (size_max a) + 1 < 2 ^ LENGTH(64)"
    by (simp add: size_max_unat)
  then have "unat (size_max a + 1) = unat (size_max a) + 1"
    by (simp add: unat_add_lem [THEN iffD1])
  then have first: "size_max a < size_max a + 1"
    by (simp add: word_less_nat_alt)
  have rest: "unat (sizeof_T a * n) = (unat (sizeof_T a) * unat n) mod 2 ^ 64
           \<and> unat (sizeof_T a * n) < unat (sizeof_T a) * unat n
           \<and> (\<forall>cfg L s hint p s'.
                 aligned_malloc cfg L s (sizeof_T a * n) (alignment a) = (p, s') \<and> p \<noteq> 0
                 \<longrightarrow> allocate cfg L a s n hint = (Inr p, s'))"
    if "size_max a < n" for n
  proof -
    have w: "unat (sizeof_T a * n) = (unat (sizeof_T a) * unat n) mod 2 ^ 64"
      by (simp add: unat_word_ariths)
    have "unat (sizeof_T a * n) < 2 ^ 64"
      using unsigned_less [of "sizeof_T a * n"] by simp
    also have "\<dots> \<le> unat (sizeof_T a) * unat n"
      using nz that by (rule product_exceeds_word)
    finally have lt: "unat (sizeof_T a * n) < unat (sizeof_T a) * unat n" .
    show ?thesis
      using w lt by (simp add: allocate_def)
  qed
  show ?thesis
    using first rest by blast
qed

text \<open>
  An instance of C10: 4-byte elements and \<open>n = 2 ^ 62 + 1\<close>. The product is
  \<open>2 ^ 64 + 4\<close>; the fallback is asked for 4 bytes (20 with the alignment) and succeeds.
\<close>

theorem allocate_byte_count_wraps_witness:
  "size_max \<lparr>sizeof_T = 4, alignment = 16\<rparr> < 4611686018427387905
   \<and> unat (4 * 4611686018427387905 :: size_t) = 4
   \<and> allocate fallback_cfg (bump_libc 4104) \<lparr>sizeof_T = 4, alignment = 16\<rparr> empty_world 4611686018427387905 0
      = (Inr 4112, \<lparr>mem = (\<lambda>a. 0)(4104 := 4104), calls = [Malloc 20]\<rparr>)"
proof -
  have lt: "size_max \<lparr>sizeof_T = 4, alignment = 16\<rparr> < 4611686018427387905"
    by (simp add: size_max_def)
  have r: "aligned_malloc fallback_cfg (bump_libc 4104) empty_world (4 * 4611686018427387905) 16
           = (4112, \<lparr>mem = (\<lambda>a. 0)(4104 := 4104), calls = [Malloc 20]\<rparr>)"
    by (simp add: aligned_malloc_def fallback_cfg_def nx_aligned_malloc_def empty_world_def
        record_call_def store_ptr_def sizeof_ptr_def)
  have "1 < sizeof_T \<lparr>sizeof_T = 4, alignment = 16 :: size_t\<rparr>"
    by simp
  from allocate_byte_count_wraps [OF this] lt r show ?thesis
    by simp
qed

section \<open>The alignment offset\<close>

text \<open>
  Claim C7. For every pointer, every size and every block size, the value returned by
  \<open>get_alignment_offset\<close> lies between 0 and \<open>size\<close>. The model is a function of its
  arguments alone: it reads and writes no state.
\<close>

theorem get_alignment_offset_range:
  "0 \<le> get_alignment_offset szT p sz block_size \<and> get_alignment_offset szT p sz block_size \<le> sz"
  by (simp add: get_alignment_offset_def Let_def)

text \<open>
  Claim C3, as the code has it. When \<open>sizeof(T)\<close> is a power of two, \<open>block_size > 1\<close> and
  the address of \<open>p\<close> is not a multiple of \<open>sizeof(T)\<close>, the result is \<open>size\<close>.
\<close>

theorem get_alignment_offset_misaligned:
  assumes "is_pow2 szT" and "1 < block_size" and "\<not> unat szT dvd unat p"
  shows "get_alignment_offset szT p sz block_size = sz"
proof -
  from assms(1) obtain k where k: "k < 64" "szT = 2 ^ k"
    by (auto simp: is_pow2_def)
  with assms(3) have "p AND (szT - 1) \<noteq> 0"
    by (simp add: aligned_iff_low_bits_clear)
  moreover from assms(2) have "block_size \<noteq> 1"
    by auto
  ultimately show ?thesis
    by (simp add: get_alignment_offset_def)
qed

text \<open>An instance of C3: 4-byte elements at address 1030.\<close>

theorem get_alignment_offset_misaligned_witness:
  "get_alignment_offset 4 1030 10 4 = 10"
  using get_alignment_offset_misaligned [of 4 4 1030 10] is_pow2_exp [of 2]
  by simp

text \<open>
  Claim C3 as stated fails for an element size that is not a power of two: with
  \<open>sizeof(T) = 12\<close> the address 4 passes the mask test \<open>4 & 11 = 0\<close>, and the result is 0
  where the claim says 10.
\<close>

theorem get_alignment_offset_misaligned_counterexample:
  "1 < (4::size_t) \<and> \<not> unat (12::size_t) dvd unat (4::size_t) \<and> get_alignment_offset 12 4 10 4 \<noteq> 10"
  by (simp add: get_alignment_offset_def)

text \<open>
  Claim C4, as the code has it. When \<open>sizeof(T)\<close> and \<open>block_size > 1\<close> are powers of two
  and the address of \<open>p\<close> is a multiple of \<open>sizeof(T)\<close>, the result is the offset of the
  specification.
\<close>

theorem get_alignment_offset_aligned:
  assumes "is_pow2 szT" and "is_pow2 block_size" and "1 < block_size"
    and "unat szT dvd unat p"
  shows "unat (get_alignment_offset szT p sz block_size) =
         spec_alignment_offset (unat szT) (unat p) (unat sz) (unat block_size)"
proof -
  from assms(1) obtain k where k: "k < 64" "szT = 2 ^ k"
    by (auto simp: is_pow2_def)
  from assms(2) obtain j where j: "j < 64" "block_size = 2 ^ j"
    by (auto simp: is_pow2_def)
  define i where "i = p div szT"
  define r where "r = i AND (block_size - 1)"
  define d where "d = (block_size - r) AND (block_size - 1)"
  have low: "p AND (szT - 1) = 0"
    using assms(4) k by (simp add: aligned_iff_low_bits_clear)
  have bs: "unat block_size = 2 ^ j"
    using j by (simp add: unat_exp64)
  have i: "unat i = unat p div unat szT"
    by (simp add: i_def unat_div)
  have r: "unat r = unat i mod unat block_size"
    unfolding r_def bs unfolding j(2) by (rule and_low_mask_unat)
  then have "unat r < unat block_size"
    by (simp add: bs)
  then have "r \<le> block_size"
    by (simp add: word_le_nat_alt)
  then have sub: "unat (block_size - r) = unat block_size - unat r"
    by (simp add: unat_sub)
  have "unat d = unat (block_size - r) mod unat block_size"
    unfolding d_def bs unfolding j(2) by (rule and_low_mask_unat)
  then have d: "unat d = (unat block_size - (unat p div unat szT) mod unat block_size) mod unat block_size"
    by (simp add: sub r i)
  from assms(3) have "block_size \<noteq> 1"
    by auto
  then have "get_alignment_offset szT p sz block_size = min d sz"
    using low by (simp add: get_alignment_offset_def Let_def d_def r_def i_def)
  then show ?thesis
    by (simp add: unat_min d spec_alignment_offset_def min.commute)
qed

text \<open>An instance of C4, the example of the specification: address 1028, index 257, offset 3.\<close>

theorem get_alignment_offset_aligned_witness:
  "unat (get_alignment_offset 4 1028 10 4) = 3"
  using get_alignment_offset_aligned [of 4 4 1028 10] is_pow2_exp [of 2]
  by (simp add: spec_alignment_offset_def)

text \<open>
  Claim C4 as stated fails for a block size that is not a power of two (block size 3,
  index 2: the code returns 0, the formula gives 1) and for an element size that is not a
  power of two (\<open>sizeof(T) = 12\<close>, address 12: the code returns \<open>size = 10\<close>, the formula
  gives 3).
\<close>

theorem get_alignment_offset_aligned_counterexample:
  "unat (get_alignment_offset 4 8 10 3) \<noteq> spec_alignment_offset (unat (4::size_t)) (unat (8::size_t)) (unat (10::size_t)) (unat (3::size_t))
   \<and> unat (get_alignment_offset 12 12 10 4) \<noteq> spec_alignment_offset (unat (12::size_t)) (unat (12::size_t)) (unat (10::size_t)) (unat (4::size_t))"
  by (simp add: get_alignment_offset_def spec_alignment_offset_def)

end
